theory Spec2Isabelle
  imports Complex_Main
begin

section \<open>The lead-capture dialog (BookDemoModal)\<close>

text \<open>
  The component keeps five pieces of local state (\<^verbatim>\<open>useState\<close>): the two text fields,
  the submitting flag, the success flag and the error message.
\<close>

record modal =
  email :: string
  company :: string
  isSubmitting :: bool
  isSuccess :: bool
  error :: string

text \<open>
  The document handed to \<^verbatim>\<open>addDoc\<close> is an object literal. It is kept as the list of
  its (field name, value) pairs, so that which fields are written is a property of the
  value and not of a type. \<^verbatim>\<open>serverTimestamp()\<close> is a sentinel that the server replaces
  by its own clock.
\<close>

datatype field_value = Str string | ServerTimestamp

type_synonym document = "(string \<times> field_value) list"

text \<open>
  Everything a handler does is a call: of a state setter, of the Firestore client, of
  \<^verbatim>\<open>setTimeout\<close>, of the console, or of the \<^verbatim>\<open>onClose\<close> property. A handler is the list
  of its calls in source order. \<^verbatim>\<open>SetTimeout ms\<close> schedules the one callback the component
  ever schedules (the auto-close of lines 38--43). The type \<open>'e\<close> is the type of the values
  a rejected write can be rejected with.
\<close>

datatype 'e call =
    PreventDefault
  | SetEmail string
  | SetCompany string
  | SetIsSubmitting bool
  | SetIsSuccess bool
  | SetError string
  | AddDoc string document
  | SetTimeout nat
  | ConsoleError string 'e
  | OnClose

text \<open>
  The world of the component: its state, every call made so far, and the delays of the
  timers that are pending (first scheduled first).
\<close>

record 'e world =
  ui :: modal
  trace :: "'e call list"
  timers :: "nat list"

fun setState :: "'e call \<Rightarrow> modal \<Rightarrow> modal" where
  "setState (SetEmail v) m = m\<lparr>email := v\<rparr>"
| "setState (SetCompany v) m = m\<lparr>company := v\<rparr>"
| "setState (SetIsSubmitting b) m = m\<lparr>isSubmitting := b\<rparr>"
| "setState (SetIsSuccess b) m = m\<lparr>isSuccess := b\<rparr>"
| "setState (SetError v) m = m\<lparr>error := v\<rparr>"
| "setState _ m = m"

fun schedule :: "'e call \<Rightarrow> nat list \<Rightarrow> nat list" where
  "schedule (SetTimeout ms) ts = ts @ [ms]"
| "schedule _ ts = ts"

definition exec :: "'e call \<Rightarrow> 'e world \<Rightarrow> 'e world" where
  "exec c w = \<lparr>ui = setState c (ui w), trace = trace w @ [c], timers = schedule c (timers w)\<rparr>"

definition run :: "'e call list \<Rightarrow> 'e world \<Rightarrow> 'e world" where
  "run cs w = foldl (\<lambda>v c. exec c v) w cs"

subsection \<open>handleSubmit\<close>

text \<open>The object literal of lines 28--33, built from the fields as they are at the submission.\<close>

definition demoRequest :: "modal \<Rightarrow> document" where
  "demoRequest m =
     [(''email'', Str (email m)),
      (''company'', Str (company m)),
      (''timestamp'', ServerTimestamp),
      (''status'', Str ''pending'')]"

text \<open>Lines 22--28: what runs before the handler waits for the write.\<close>

definition submit_calls :: "modal \<Rightarrow> 'e call list" where
  "submit_calls m =
     [PreventDefault, SetError '''', SetIsSubmitting True, AddDoc ''demo-requests'' (demoRequest m)]"

text \<open>
  The write is settled by the document store: accepted, or rejected with some value.
  (An exception thrown by \<^verbatim>\<open>addDoc\<close> itself reaches the same \<^verbatim>\<open>catch\<close>.)
\<close>

datatype 'e write_outcome = Accepted | Rejected 'e

text \<open>Lines 35--49: the rest of the \<^verbatim>\<open>try\<close>, or the \<^verbatim>\<open>catch\<close>, then the \<^verbatim>\<open>finally\<close>.\<close>

fun settle_calls :: "'e write_outcome \<Rightarrow> 'e call list" where
  "settle_calls Accepted = [SetIsSuccess True, SetTimeout 2000, SetIsSubmitting False]"
| "settle_calls (Rejected e) =
     [ConsoleError ''Error submitting form:'' e,
      SetError ''Failed to submit. Please try again.'',
      SetIsSubmitting False]"

definition handleSubmit_begin :: "'e world \<Rightarrow> 'e world" where
  "handleSubmit_begin w = run (submit_calls (ui w)) w"

definition handleSubmit_settle :: "'e write_outcome \<Rightarrow> 'e world \<Rightarrow> 'e world" where
  "handleSubmit_settle outcome w = run (settle_calls outcome) w"

definition handleSubmit :: "'e write_outcome \<Rightarrow> 'e world \<Rightarrow> 'e world" where
  "handleSubmit outcome w = handleSubmit_settle outcome (handleSubmit_begin w)"

text \<open>The callback given to \<^verbatim>\<open>setTimeout\<close> (lines 38--43), and a pending timer firing.\<close>

definition autoClose_calls :: "'e call list" where
  "autoClose_calls = [SetEmail '''', SetCompany '''', SetIsSuccess False, OnClose]"

definition timerFires :: "'e world \<Rightarrow> 'e world" where
  "timerFires w =
     (case timers w of
        [] \<Rightarrow> w
      | t # ts \<Rightarrow> run autoClose_calls (w\<lparr>timers := ts\<rparr>))"

subsection \<open>handleClose\<close>

definition handleClose_calls :: "modal \<Rightarrow> 'e call list" where
  "handleClose_calls m =
     (if \<not> isSubmitting m
      then [SetEmail '''', SetCompany '''', SetError '''', SetIsSuccess False, OnClose]
      else [])"

definition handleClose :: "'e world \<Rightarrow> 'e world" where
  "handleClose w = run (handleClose_calls (ui w)) w"

subsection \<open>What is on screen\<close>

text \<open>
  The JSX of lines 62--216: nothing unless \<^verbatim>\<open>isOpen\<close>; the success panel when the success
  flag is set; otherwise the form with both inputs, the error banner when the message is
  not empty, and the submit button disabled while submitting.
\<close>

datatype screen =
    Hidden
  | SuccessPanel
  | FormPanel string string "string option" bool

definition render :: "bool \<Rightarrow> modal \<Rightarrow> screen" where
  "render isOpen m =
     (if \<not> isOpen then Hidden
      else if isSuccess m then SuccessPanel
      else FormPanel (email m) (company m)
             (if error m \<noteq> '''' then Some (error m) else None) (isSubmitting m))"

text \<open>The calls that go out to the document store, and the kinds of store operation.\<close>

datatype store_op = Create | Read | Update | Delete

fun store_op_of :: "'e call \<Rightarrow> store_op option" where
  "store_op_of (AddDoc c d) = Some Create"
| "store_op_of _ = None"

definition writes :: "'e call list \<Rightarrow> (string \<times> document) list" where
  "writes cs = concat (map (\<lambda>c. case c of AddDoc n d \<Rightarrow> [(n, d)] | _ \<Rightarrow> []) cs)"

definition new_calls :: "'e world \<Rightarrow> 'e world \<Rightarrow> 'e call list" where
  "new_calls w w' = drop (length (trace w)) (trace w')"

section \<open>The scroll-driven camera driver (ArequipaScrollMap)\<close>

text \<open>One entry of the table \<^verbatim>\<open>this.mapStates\<close>: the literals of lines 24--67.\<close>

record camera_state =
  center :: "real \<times> real"
  zoom :: real
  pitch :: real
  bearing :: real
  style :: string

definition satellite_streets :: string where
  "satellite_streets = ''mapbox://styles/mapbox/satellite-streets-v12''"

definition standard_style :: string where
  "standard_style = ''mapbox://styles/mapbox/standard''"

definition mapStates :: "(string \<times> camera_state) list" where
  "mapStates =
     [(''intro'',
         \<lparr>center = (0, 0), zoom = 3, pitch = 0, bearing = 0, style = satellite_streets\<rparr>),
      (''historical'',
         \<lparr>center = (- 71.5375, - 16.4090), zoom = 6, pitch = 0, bearing = 0,
          style = satellite_streets\<rparr>),
      (''architectural'',
         \<lparr>center = (- 71.5375, - 16.4090), zoom = 8, pitch = 15, bearing = 10,
          style = satellite_streets\<rparr>),
      (''cultural'',
         \<lparr>center = (- 71.5375, - 16.4090), zoom = 9, pitch = 60, bearing = - 30,
          style = satellite_streets\<rparr>),
      (''data'',
         \<lparr>center = (- 71.537, - 16.399), zoom = 18, pitch = 60, bearing = 0,
          style = standard_style\<rparr>),
      (''conclusion'',
         \<lparr>center = (- 71.537, - 16.399), zoom = 17, pitch = 60, bearing = 0,
          style = standard_style\<rparr>)]"

text \<open>
  \<^verbatim>\<open>this.mapStates[stateKey]\<close> is a property read on an object literal. JavaScript looks
  among the object's own properties first and then along the prototype chain, which for
  an object literal is \<^verbatim>\<open>Object.prototype\<close>. The names below are the properties of
  \<^verbatim>\<open>Object.prototype\<close>; each reads as a function (or, for \<^verbatim>\<open>__proto__\<close>, as
  \<^verbatim>\<open>Object.prototype\<close> itself): a truthy value none of whose properties is called
  \<^verbatim>\<open>center\<close>, \<^verbatim>\<open>zoom\<close>, \<^verbatim>\<open>pitch\<close>, \<^verbatim>\<open>bearing\<close> or \<^verbatim>\<open>style\<close>.
\<close>

definition object_prototype_keys :: "string list" where
  "object_prototype_keys =
     [''constructor'', ''hasOwnProperty'', ''isPrototypeOf'', ''propertyIsEnumerable'',
      ''toLocaleString'', ''toString'', ''valueOf'', ''__proto__'',
      ''__defineGetter__'', ''__defineSetter__'', ''__lookupGetter__'', ''__lookupSetter__'']"

datatype js_lookup = Own camera_state | Inherited | Undefined

definition mapStates_get :: "string \<Rightarrow> js_lookup" where
  "mapStates_get stateKey =
     (case map_of mapStates stateKey of
        Some c \<Rightarrow> Own c
      | None \<Rightarrow> if stateKey \<in> set object_prototype_keys then Inherited else Undefined)"

text \<open>Reading a property of the value found; \<open>None\<close> is \<^verbatim>\<open>undefined\<close>.\<close>

fun get_center :: "js_lookup \<Rightarrow> (real \<times> real) option" where
  "get_center (Own c) = Some (center c)"
| "get_center _ = None"

fun get_zoom :: "js_lookup \<Rightarrow> real option" where
  "get_zoom (Own c) = Some (zoom c)"
| "get_zoom _ = None"

fun get_pitch :: "js_lookup \<Rightarrow> real option" where
  "get_pitch (Own c) = Some (pitch c)"
| "get_pitch _ = None"

fun get_bearing :: "js_lookup \<Rightarrow> real option" where
  "get_bearing (Own c) = Some (bearing c)"
| "get_bearing _ = None"

fun get_style :: "js_lookup \<Rightarrow> string option" where
  "get_style (Own c) = Some (style c)"
| "get_style _ = None"

text \<open>
  The calls updateMapState and updateActivePanel make, in order: to the console, to the
  map library (\<^verbatim>\<open>setStyle\<close>, \<^verbatim>\<open>easeTo\<close> with center, zoom, pitch, bearing and duration),
  the timer for applyLightingForState, configure3DBuildingsForStandardStyle and
  updateProgressBar. The library's calls are taken to return.
\<close>

datatype map_call =
    ConsoleWarn string
  | ConsoleLog string
  | SetStyle "string option"
  | EaseTo "(real \<times> real) option" "real option" "real option" "real option" nat
  | LightingTimer string nat
  | Configure3DBuildings
  | UpdateProgressBar

text \<open>
  A content panel is a DOM element; \<open>panelId\<close> stands for its identity and
  \<open>dataMapState\<close> for its \<^verbatim>\<open>data-map-state\<close> attribute (\<open>None\<close> when it has none).
\<close>

record panel =
  panelId :: nat
  dataMapState :: "string option"

record scroll_map =
  mapPresent :: bool
  isLoaded :: bool
  currentState :: "string option"
  reducedMotion :: bool
  contentPanels :: "panel list"
  currentPanelIndex :: nat
  calls :: "map_call list"

text \<open>
  updateMapState, lines 229--273. \<open>styleName\<close> is what \<^verbatim>\<open>this.map.getStyle().name\<close>
  answers at the call.
\<close>

definition updateMapState :: "string option \<Rightarrow> string \<Rightarrow> scroll_map \<Rightarrow> scroll_map" where
  "updateMapState styleName stateKey s =
     (if \<not> mapPresent s \<or> \<not> isLoaded s then s
      else
        (case mapStates_get stateKey of
           Undefined \<Rightarrow>
             s\<lparr>calls := calls s @ [ConsoleWarn (''Map state not found for: '' @ stateKey)]\<rparr>
         | mapState \<Rightarrow>
             s\<lparr>currentState := Some stateKey,
               calls := calls s
                 @ (if styleName \<noteq> get_style mapState then [SetStyle (get_style mapState)] else [])
                 @ (if currentState s = Some ''data'' \<and> stateKey = ''conclusion''
                    then [ConsoleLog ''Maintaining same view from data to conclusion - no animation'']
                    else [EaseTo (get_center mapState) (get_zoom mapState) (get_pitch mapState)
                            (get_bearing mapState) (if reducedMotion s then 0 else 2000)])
                 @ [LightingTimer stateKey 100]
                 @ (if stateKey = ''data'' \<or> stateKey = ''conclusion''
                    then [Configure3DBuildings] else [])\<rparr>))"



text \<open>The camera pushes among the calls made between two states.\<close>

fun is_EaseTo :: "map_call \<Rightarrow> bool" where
  "is_EaseTo (EaseTo c z p b d) = True"
| "is_EaseTo _ = False"

definition camera_pushes :: "scroll_map \<Rightarrow> scroll_map \<Rightarrow> map_call list" where
  "camera_pushes s s' = filter is_EaseTo (drop (length (calls s)) (calls s'))"

section \<open>The parallax layer driver (TerritoryLayers)\<close>

text \<open>
  JavaScript numbers are IEEE doubles. The model keeps the special values the source can
  produce, \<^verbatim>\<open>NaN\<close> and the two infinities, and takes arithmetic on finite values to be
  exact; rounding and the sign of zero are not modelled. A zero divisor is taken to be
  \<^verbatim>\<open>+0\<close>, which is what the one divisor of the source that can be zero, a difference of
  two equal finite numbers, is.
\<close>

datatype jsnum = Num real | PosInf | NegInf | NaN

fun js_neg :: "jsnum \<Rightarrow> jsnum" where
  "js_neg (Num x) = Num (- x)"
| "js_neg PosInf = NegInf"
| "js_neg NegInf = PosInf"
| "js_neg NaN = NaN"

fun js_add :: "jsnum \<Rightarrow> jsnum \<Rightarrow> jsnum" where
  "js_add NaN _ = NaN"
| "js_add _ NaN = NaN"
| "js_add (Num x) (Num y) = Num (x + y)"
| "js_add PosInf NegInf = NaN"
| "js_add NegInf PosInf = NaN"
| "js_add PosInf _ = PosInf"
| "js_add NegInf _ = NegInf"
| "js_add _ b = b"

definition js_sub :: "jsnum \<Rightarrow> jsnum \<Rightarrow> jsnum" where
  "js_sub a b = js_add a (js_neg b)"

text \<open>The sign of a value that is not \<^verbatim>\<open>NaN\<close>: \<open>-1\<close>, \<open>0\<close> or \<open>1\<close>.\<close>

fun js_sign :: "jsnum \<Rightarrow> int" where
  "js_sign (Num x) = (if x < 0 then - 1 else if x = 0 then 0 else 1)"
| "js_sign PosInf = 1"
| "js_sign NegInf = - 1"
| "js_sign NaN = 0"

definition signed_inf :: "int \<Rightarrow> jsnum" where
  "signed_inf k = (if k = 0 then NaN else if k < 0 then NegInf else PosInf)"

fun js_mul :: "jsnum \<Rightarrow> jsnum \<Rightarrow> jsnum" where
  "js_mul NaN _ = NaN"
| "js_mul _ NaN = NaN"
| "js_mul (Num x) (Num y) = Num (x * y)"
| "js_mul a b = signed_inf (js_sign a * js_sign b)"

fun js_div :: "jsnum \<Rightarrow> jsnum \<Rightarrow> jsnum" where
  "js_div NaN _ = NaN"
| "js_div _ NaN = NaN"
| "js_div (Num x) (Num y) = (if y = 0 then signed_inf (js_sign (Num x)) else Num (x / y))"
| "js_div (Num x) _ = Num 0"
| "js_div a (Num y) = signed_inf (js_sign a * (if y < 0 then - 1 else 1))"
| "js_div _ _ = NaN"

text \<open>\<^verbatim>\<open>a < b\<close>: false whenever an operand is \<^verbatim>\<open>NaN\<close>.\<close>

fun js_lt :: "jsnum \<Rightarrow> jsnum \<Rightarrow> bool" where
  "js_lt NaN _ = False"
| "js_lt _ NaN = False"
| "js_lt (Num x) (Num y) = (x < y)"
| "js_lt NegInf b = (b \<noteq> NegInf)"
| "js_lt a PosInf = (a \<noteq> PosInf)"
| "js_lt _ _ = False"

text \<open>\<^verbatim>\<open>Math.min\<close> and \<^verbatim>\<open>Math.max\<close> of two arguments: \<^verbatim>\<open>NaN\<close> if either is.\<close>

definition Math_min :: "jsnum \<Rightarrow> jsnum \<Rightarrow> jsnum" where
  "Math_min a b = (if a = NaN \<or> b = NaN then NaN else if js_lt b a then b else a)"

definition Math_max :: "jsnum \<Rightarrow> jsnum \<Rightarrow> jsnum" where
  "Math_max a b = (if a = NaN \<or> b = NaN then NaN else if js_lt a b then b else a)"

text \<open>Line 14: \<^verbatim>\<open>t < 0.5 ? 2 * t * t : -1 + (4 - 2 * t) * t\<close>.\<close>

definition ease :: "jsnum \<Rightarrow> jsnum" where
  "ease t =
     (if js_lt t (Num 0.5) then js_mul (js_mul (Num 2) t) t
      else js_add (Num (- 1)) (js_mul (js_sub (Num 4) (js_mul (Num 2) t)) t))"

text \<open>
  Line 19. The three inputs are what \<^verbatim>\<open>getBoundingClientRect\<close> and the window report,
  which are finite numbers.
\<close>

record dom_rect =
  rect_top :: real
  rect_height :: real

definition scrollProgress :: "dom_rect \<Rightarrow> real \<Rightarrow> jsnum" where
  "scrollProgress rect innerHeight =
     Math_max (Num 0)
       (Math_min (Num 1)
          (js_div (js_neg (Num (rect_top rect)))
                  (js_sub (Num (rect_height rect)) (Num innerHeight))))"

text \<open>Line 20.\<close>

definition eased_progress :: "jsnum \<Rightarrow> jsnum" where
  "eased_progress sp = ease (Math_min (js_div sp (Num 0.80)) (Num 1))"

text \<open>
  Lines 22--29, for the layer at index \<open>i\<close>: the number put into
  \<^verbatim>\<open>translateZ(...px)\<close>, the opacity string, and whether the class \<^verbatim>\<open>open\<close> is on.
\<close>

record layer_style =
  translateZ :: jsnum
  opacity :: string
  open_class :: bool

definition layer_frame :: "jsnum \<Rightarrow> nat \<Rightarrow> layer_style" where
  "layer_frame ep i =
     (let baseZ = js_mul (Num (real i)) (Num 120);
          additionalZ = js_mul (js_mul (Num (real i)) (Num 180)) ep
      in \<lparr>translateZ = js_add baseZ additionalZ,
          opacity = ''1'',
          open_class = (i > 0 \<or> js_lt (Num 0.10) ep)\<rparr>)"

text \<open>
  One run of \<^verbatim>\<open>frame\<close> (lines 16--32) over \<open>n\<close> layers: nothing when the container is
  gone, otherwise the scalar, the styles of the layers, and the request for the next
  frame.
\<close>

record frame_result =
  progress :: jsnum
  styles :: "layer_style list"
  next_frame_requested :: bool

definition frame :: "dom_rect option \<Rightarrow> real \<Rightarrow> nat \<Rightarrow> frame_result option" where
  "frame container innerHeight n =
     (case container of
        None \<Rightarrow> None
      | Some rect \<Rightarrow>
          (let sp = scrollProgress rect innerHeight;
               ep = eased_progress sp
           in Some \<lparr>progress = sp,
                    styles = map (layer_frame ep) [0..<n],
                    next_frame_requested = True\<rparr>))"



section \<open>Concrete inputs\<close>

text \<open>A dialog with both fields filled in, nothing submitted yet.\<close>

definition example_world :: "string world" where
  "example_world =
     \<lparr>ui = \<lparr>email = ''ana@example.org'', company = ''Acme'', isSubmitting = False,
             isSuccess = False, error = []\<rparr>,
      trace = [], timers = []\<rparr>"

text \<open>
  A dialog whose first submission was accepted, that was then closed by the visitor, opened
  again and filled in, and whose second submission is waiting for its write, all before
  the timer of the first submission has fired.
\<close>

definition reopened_in_flight :: "string world" where
  "reopened_in_flight =
     handleSubmit_begin
       (exec (SetCompany ''Beta'')
          (exec (SetEmail ''bo@example.org'')
             (handleClose (handleSubmit Accepted example_world))))"

text \<open>
  The page's six panels, and the driver once the map has loaded: the constructor's values,
  the panels found by setupScrollytelling (whose first updateMapState returned early, the
  map not being there yet), and \<^verbatim>\<open>isLoaded\<close> set by initializeMap.
\<close>

definition six_panels :: "panel list" where
  "six_panels =
     [\<lparr>panelId = 0, dataMapState = Some ''intro''\<rparr>,
      \<lparr>panelId = 1, dataMapState = Some ''historical''\<rparr>,
      \<lparr>panelId = 2, dataMapState = Some ''architectural''\<rparr>,
      \<lparr>panelId = 3, dataMapState = Some ''cultural''\<rparr>,
      \<lparr>panelId = 4, dataMapState = Some ''data''\<rparr>,
      \<lparr>panelId = 5, dataMapState = Some ''conclusion''\<rparr>]"

definition loaded_map :: scroll_map where
  "loaded_map =
     \<lparr>mapPresent = True, isLoaded = True, currentState = None, reducedMotion = False,
      contentPanels = six_panels, currentPanelIndex = 0, calls = []\<rparr>"


section \<open>Properties of the dialog\<close>

lemma run_Nil [simp]: "run [] w = w"
  by (simp add: run_def)

lemma run_Cons [simp]: "run (c # cs) w = run cs (exec c w)"
  by (simp add: run_def)

lemma trace_run: "trace (run cs w) = trace w @ cs"
  by (induction cs arbitrary: w) (simp_all add: exec_def)

lemma new_calls_run [simp]: "new_calls w (run cs w) = cs"
  by (simp add: new_calls_def trace_run)

lemma exec_simps [simp]:
  "ui (exec c w) = setState c (ui w)"
  "trace (exec c w) = trace w @ [c]"
  "timers (exec c w) = schedule c (timers w)"
  by (simp_all add: exec_def)

lemmas submit_defs =
  handleSubmit_def handleSubmit_begin_def handleSubmit_settle_def submit_calls_def

lemmas handler_defs =
  submit_defs handleClose_def handleClose_calls_def timerFires_def autoClose_calls_def

lemma new_calls_handleClose: "new_calls w (handleClose w) = handleClose_calls (ui w)"
  by (simp add: handleClose_def)

text \<open>
  Whenever a timer is pending, its firing runs the auto-close callback, whatever the state
  of the component then is.
\<close>

lemma timerFires_pending:
  assumes "timers v \<noteq> []"
  shows "new_calls v (timerFires v) = [SetEmail [], SetCompany [], SetIsSuccess False, OnClose]
       \<and> email (ui (timerFires v)) = [] \<and> company (ui (timerFires v)) = []
       \<and> \<not> isSuccess (ui (timerFires v))
       \<and> isSubmitting (ui (timerFires v)) = isSubmitting (ui v)
       \<and> error (ui (timerFires v)) = error (ui v)"
  using assms
  by (cases "timers v") (simp_all add: timerFires_def autoClose_calls_def new_calls_def)





text \<open>
  C3. Whatever the outcome, the one document a submission writes has exactly the four
  fields \<^verbatim>\<open>email\<close> and \<^verbatim>\<open>company\<close> (the strings as entered), \<^verbatim>\<open>timestamp\<close> (the
  server-timestamp sentinel) and \<^verbatim>\<open>status\<close> (the string \<^verbatim>\<open>pending\<close>), in the collection
  \<^verbatim>\<open>demo-requests\<close>. The only store operation of a submission is that create; closing the
  dialog and the auto-close timer make no store operation at all.
\<close>

theorem C3_demo_request_record:
  "writes (new_calls w (handleSubmit outcome w)) =
     [(''demo-requests'',
       [(''email'', Str (email (ui w))),
        (''company'', Str (company (ui w))),
        (''timestamp'', ServerTimestamp),
        (''status'', Str ''pending'')])]
   \<and> List.map_filter store_op_of (new_calls w (handleSubmit outcome w)) = [Create]
   \<and> List.map_filter store_op_of (new_calls w (handleClose w)) = []
   \<and> List.map_filter store_op_of (new_calls w (timerFires w)) = []"
  by (cases outcome)
     (simp_all add: handler_defs demoRequest_def writes_def new_calls_def
        List.map_filter_simps trace_run split: list.splits)

theorem C3_witness:
  "writes (trace (handleSubmit Accepted example_world)) =
     [(''demo-requests'',
       [(''email'', Str ''ana@example.org''), (''company'', Str ''Acme''),
        (''timestamp'', ServerTimestamp), (''status'', Str ''pending'')])]"
  using C3_demo_request_record [of example_world Accepted]
  by (simp add: example_world_def new_calls_def)

text \<open>
  C6. Whenever handleClose closes the dialog (it calls \<^verbatim>\<open>onClose\<close>), it has called the
  setters that empty the email, the company and the error message and clear the success
  flag, in that order and before \<^verbatim>\<open>onClose\<close>; afterwards every field has its initial
  value.
\<close>

theorem C6_close_resets_fields:
  assumes "OnClose \<in> set (new_calls w (handleClose w))"
  shows "(let w1 = handleClose w in
      new_calls w w1 = [SetEmail [], SetCompany [], SetError [], SetIsSuccess False, OnClose]
    \<and> ui w1 = \<lparr>email = [], company = [], isSubmitting = False, isSuccess = False, error = []\<rparr>
    \<and> timers w1 = timers w)"
proof -
  from assms have open_for_close: "\<not> isSubmitting (ui w)"
    by (auto simp: new_calls_handleClose handleClose_calls_def split: if_splits)
  then have "new_calls w (handleClose w) =
      [SetEmail [], SetCompany [], SetError [], SetIsSuccess False, OnClose]"
    by (simp add: new_calls_handleClose handleClose_calls_def)
  moreover from open_for_close have "ui (handleClose w) =
      \<lparr>email = [], company = [], isSubmitting = False, isSuccess = False, error = []\<rparr>"
    by (simp add: handler_defs)
  moreover from open_for_close have "timers (handleClose w) = timers w"
    by (simp add: handler_defs)
  ultimately show ?thesis by (simp add: Let_def)
qed

theorem C6_witness:
  "OnClose \<in> set (new_calls (handleSubmit (Rejected ''quota'') example_world)
                    (handleClose (handleSubmit (Rejected ''quota'') example_world)))
   \<and> ui (handleClose (handleSubmit (Rejected ''quota'') example_world)) =
       \<lparr>email = [], company = [], isSubmitting = False, isSuccess = False, error = []\<rparr>"
proof -
  have closes: "OnClose \<in> set (new_calls (handleSubmit (Rejected ''quota'') example_world)
                    (handleClose (handleSubmit (Rejected ''quota'') example_world)))"
    by (simp add: new_calls_handleClose handleClose_calls_def submit_defs example_world_def)
  from C6_close_resets_fields [OF closes] closes show ?thesis
    by (simp add: Let_def)
qed

text \<open>
  C7. The message a rejected write leaves in the error field is one fixed string. Two
  submissions from the same state that are rejected with any two values end in the same
  component state, and so in the same screen: the value the write was rejected with reaches
  the console only.
\<close>

theorem C7_generic_error_message:
  "error (ui (handleSubmit (Rejected e1) w)) = ''Failed to submit. Please try again.''
   \<and> ui (handleSubmit (Rejected e1) w) = ui (handleSubmit (Rejected e2) w)
   \<and> render isOpen (ui (handleSubmit (Rejected e1) w)) =
       render isOpen (ui (handleSubmit (Rejected e2) w))"
  by (simp add: handler_defs)

theorem C7_witness:
  "render True (ui (handleSubmit (Rejected ''network'') example_world)) =
     render True (ui (handleSubmit (Rejected ''quota'') example_world))
   \<and> error (ui (handleSubmit (Rejected ''network'') example_world)) =
       ''Failed to submit. Please try again.''"
  using C7_generic_error_message [of "''network''" example_world "''quota''" True]
  by blast



text \<open>
  While the submitting flag is set, handleClose does nothing: no field changes, no call is
  made (so \<^verbatim>\<open>onClose\<close> is not called) and no timer is touched, however often it is
  tried.
\<close>

lemma handleClose_blocked_while_submitting:
  assumes "isSubmitting (ui w)"
  shows "handleClose w = w \<and> (handleClose ^^ n) w = w"
proof -
  have once: "handleClose w = w"
    using assms by (simp add: handler_defs)
  have "(handleClose ^^ n) w = w"
    by (induction n) (simp_all add: once)
  with once show ?thesis by simp
qed

lemma handleClose_blocked_in_flight:
  "isSubmitting (ui (handleSubmit_begin w))
   \<and> handleClose (handleSubmit_begin w) = handleSubmit_begin w"
proof -
  have in_flight: "isSubmitting (ui (handleSubmit_begin w))"
    by (simp add: handler_defs)
  from handleClose_blocked_while_submitting [OF in_flight, of 1] in_flight show ?thesis
    by simp
qed

text \<open>
  C10. The close operation is not the only path that closes and resets. The callback of
  the auto-close timer has no guard on the submitting flag, and a timer is never
  cancelled: when a timer is pending while a write is in flight, its firing empties the
  email and the company and calls \<^verbatim>\<open>onClose\<close>, with the submitting flag still set.
\<close>

theorem C10_timer_closes_while_submitting:
  assumes "isSubmitting (ui v)" and "timers v \<noteq> []"
  shows "new_calls v (timerFires v) = [SetEmail [], SetCompany [], SetIsSuccess False, OnClose]
       \<and> email (ui (timerFires v)) = [] \<and> company (ui (timerFires v)) = []
       \<and> isSubmitting (ui (timerFires v))"
  using assms timerFires_pending [of v] by simp

text \<open>
  Such a state is reached in the dialog that was closed and opened again within the two
  seconds: the timer of the first submission fires while the second write is in flight.
\<close>

theorem C10_witness:
  "isSubmitting (ui reopened_in_flight)
   \<and> email (ui reopened_in_flight) = ''bo@example.org''
   \<and> company (ui reopened_in_flight) = ''Beta''
   \<and> timers reopened_in_flight = [2000]
   \<and> isSubmitting (ui (timerFires reopened_in_flight))
   \<and> email (ui (timerFires reopened_in_flight)) = []
   \<and> company (ui (timerFires reopened_in_flight)) = []
   \<and> new_calls reopened_in_flight (timerFires reopened_in_flight) =
        [SetEmail [], SetCompany [], SetIsSuccess False, OnClose]"
proof -
  have state: "ui reopened_in_flight =
      \<lparr>email = ''bo@example.org'', company = ''Beta'', isSubmitting = True,
        isSuccess = False, error = []\<rparr>"
    "timers reopened_in_flight = [2000]"
    by (simp_all add: reopened_in_flight_def example_world_def handler_defs)
  then have in_flight: "isSubmitting (ui reopened_in_flight)"
    and pending: "timers reopened_in_flight \<noteq> []"
    by simp_all
  from C10_timer_closes_while_submitting [OF in_flight pending] state show ?thesis
    by simp
qed

section \<open>Properties of the camera driver\<close>

lemma mapStates_keys:
  "map fst mapStates =
     [''intro'', ''historical'', ''architectural'', ''cultural'', ''data'', ''conclusion'']"
  by (simp add: mapStates_def)

lemma map_of_mapStates_prototype:
  "k \<in> set object_prototype_keys \<Longrightarrow> map_of mapStates k = None"
  by (auto simp: object_prototype_keys_def mapStates_def)

lemma mapStates_get_prototype:
  "k \<in> set object_prototype_keys \<Longrightarrow> mapStates_get k = Inherited"
  by (simp add: mapStates_get_def map_of_mapStates_prototype)

lemma mapStates_get_own: "map_of mapStates k = Some c \<Longrightarrow> mapStates_get k = Own c"
  by (simp add: mapStates_get_def)


text \<open>Without a loaded map updateMapState does nothing.\<close>

lemma updateMapState_not_loaded:
  "\<not> mapPresent s \<or> \<not> isLoaded s \<Longrightarrow> updateMapState sn k s = s"
  by (auto simp: updateMapState_def)

text \<open>
  A key that is neither in the table nor a property of \<^verbatim>\<open>Object.prototype\<close> is not
  recognised: no camera push, and the current state stays.
\<close>

lemma updateMapState_unrecognised:
  assumes "k \<notin> set (map fst mapStates)" and "k \<notin> set object_prototype_keys"
  shows "camera_pushes s (updateMapState sn k s) = []
       \<and> currentState (updateMapState sn k s) = currentState s"
proof -
  from assms(1) have "map_of mapStates k = None"
    by (simp add: map_of_eq_None_iff)
  with assms(2) have "mapStates_get k = Undefined"
    by (simp add: mapStates_get_def)
  then show ?thesis
    by (simp add: updateMapState_def camera_pushes_def)
qed

text \<open>A key of the table, with the map loaded.\<close>

lemma updateMapState_own:
  assumes "mapPresent s" "isLoaded s" "map_of mapStates k = Some c"
  shows "camera_pushes s (updateMapState sn k s) =
           (if currentState s = Some ''data'' \<and> k = ''conclusion'' then []
            else [EaseTo (Some (center c)) (Some (zoom c)) (Some (pitch c)) (Some (bearing c))
                    (if reducedMotion s then 0 else 2000)])"
    and "currentState (updateMapState sn k s) = Some k"
  using assms
  by (simp_all add: updateMapState_def camera_pushes_def mapStates_get_own)

text \<open>
  C4. The table has the six keys and no other, but the lookup
  \<^verbatim>\<open>this.mapStates[stateKey]\<close> also finds what the table inherits. With the map loaded,
  a key that names a property of \<^verbatim>\<open>Object.prototype\<close> (and is none of the six) passes the
  test \<^verbatim>\<open>if (!mapState)\<close>: updateMapState pushes a camera move whose center, zoom, pitch
  and bearing are all \<^verbatim>\<open>undefined\<close>, and makes that key the current state.
\<close>

theorem C4_inherited_key_is_recognised:
  assumes "mapPresent s" and "isLoaded s" and "stateKey \<in> set object_prototype_keys"
  shows "stateKey \<notin> set (map fst mapStates)
       \<and> camera_pushes s (updateMapState styleName stateKey s) =
           [EaseTo None None None None (if reducedMotion s then 0 else 2000)]
       \<and> currentState (updateMapState styleName stateKey s) = Some stateKey"
proof -
  from assms(3) have not_own: "stateKey \<notin> set (map fst mapStates)"
    using map_of_mapStates_prototype [of stateKey] by (simp add: map_of_eq_None_iff)
  from assms(3) have "stateKey \<noteq> ''conclusion''"
    by (auto simp: object_prototype_keys_def)
  with assms not_own show ?thesis
    by (simp add: updateMapState_def camera_pushes_def mapStates_get_prototype)
qed

theorem C4_witness:
  "''constructor'' \<notin> set (map fst mapStates)
   \<and> camera_pushes loaded_map
        (updateMapState (Some ''Mapbox Satellite Streets'') ''constructor'' loaded_map) =
       [EaseTo None None None None 2000]
   \<and> currentState (updateMapState (Some ''Mapbox Satellite Streets'') ''constructor'' loaded_map) =
       Some ''constructor''"
  using C4_inherited_key_is_recognised
          [of loaded_map "''constructor''" "Some ''Mapbox Satellite Streets''"]
  by (simp add: loaded_map_def object_prototype_keys_def)





section \<open>Properties of the parallax driver\<close>


text \<open>
  In the remaining case the quotient of line 19 is 0 / 0: the scalar is \<^verbatim>\<open>NaN\<close>, which
  \<^verbatim>\<open>Math.min\<close> and \<^verbatim>\<open>Math.max\<close> hand on, and the depth of every layer is \<^verbatim>\<open>NaN\<close> too.
\<close>

lemma scrollProgress_NaN:
  "scrollProgress \<lparr>rect_top = 0, rect_height = h\<rparr> h = NaN"
  by (simp add: scrollProgress_def Math_max_def Math_min_def js_sub_def signed_inf_def)

lemma frame_NaN:
  "frame (Some \<lparr>rect_top = 0, rect_height = h\<rparr>) h n =
     Some \<lparr>progress = NaN,
           styles = map (\<lambda>i. \<lparr>translateZ = NaN, opacity = ''1'', open_class = (i > 0)\<rparr>) [0..<n],
           next_frame_requested = True\<rparr>"
  by (simp add: frame_def scrollProgress_NaN Math_min_def js_sub_def Let_def eased_progress_def
        ease_def layer_frame_def)






end
